theory Spec2Isabelle
  imports Complex_Main
begin

section \<open>The JavaScript runtime as far as the geographic model uses it\<close>

text \<open>
  The module under verification is the geographic data utility (getClimateZone,
  getElevationFromCoordinates, getCoastalInfluence, getGeographicData, getCropSuitability).

  A JavaScript number is modelled as a real: the inputs are taken to be finite, and the
  rounding error of double arithmetic is left out.  The operations of the runtime that the
  module calls are written out below.
\<close>

text \<open>\<^verbatim>\<open>Math.round(x)\<close> is the integer nearest to x, a tie going up.\<close>

definition Math_round :: "real \<Rightarrow> real" where
  "Math_round x = of_int \<lfloor>x + 1 / 2\<rfloor>"

text \<open>\<^verbatim>\<open>Math.floor(x)\<close>, used as an array index.\<close>

definition Math_floor :: "real \<Rightarrow> int" where
  "Math_floor x = \<lfloor>x\<rfloor>"

text \<open>
  \<^verbatim>\<open>a % b\<close> is the remainder of the division truncated towards zero: its sign is the sign
  of the dividend.  The module only divides by 60.
\<close>

definition js_rem :: "real \<Rightarrow> real \<Rightarrow> real" where
  "js_rem a b = a - b * of_int (if 0 \<le> a / b then \<lfloor>a / b\<rfloor> else \<lceil>a / b\<rceil>)"

text \<open>
  \<^verbatim>\<open>Math.random()\<close> reads the ambient random source.  The source is the sequence of the
  values it will return; a call returns the first one and leaves the rest.  The runtime
  promises values in the half-open unit interval, which is the predicate \<open>unit_draws\<close>.
\<close>

type_synonym rng = "nat \<Rightarrow> real"

definition Math_random :: "rng \<Rightarrow> real \<times> rng" where
  "Math_random r = (r 0, \<lambda>n. r (Suc n))"

definition unit_draws :: "rng \<Rightarrow> bool" where
  "unit_draws r = (\<forall>n. 0 \<le> r n \<and> r n < 1)"

text \<open>
  Reading an array at an index: \<open>None\<close> is JavaScript's \<^verbatim>\<open>undefined\<close>, the value of a read
  outside the array.
\<close>

definition array_get :: "'a list \<Rightarrow> int \<Rightarrow> 'a option" where
  "array_get xs i = (if 0 \<le> i \<and> i < int (length xs) then Some (xs ! nat i) else None)"

text \<open>
  Reading a property of an object literal by a string key.  The literal's own properties
  come first; a key that is not an own property is looked up in \<^verbatim>\<open>Object.prototype\<close>,
  which every object literal inherits from, and only a key found in neither gives
  \<^verbatim>\<open>undefined\<close>.  The inherited values are functions (and, for \<^verbatim>\<open>__proto__\<close>, the prototype
  object itself): all of them are truthy and none has the fields of a table entry.
\<close>

datatype 'a property = Own 'a | Inherited | Undefined

definition Object_prototype :: "string list" where
  "Object_prototype =
    [''constructor'', ''hasOwnProperty'', ''isPrototypeOf'', ''propertyIsEnumerable'',
     ''toLocaleString'', ''toString'', ''valueOf'', ''__proto__'',
     ''__defineGetter__'', ''__defineSetter__'', ''__lookupGetter__'', ''__lookupSetter__'']"

definition get_property :: "(string \<times> 'a) list \<Rightarrow> string \<Rightarrow> 'a property" where
  "get_property obj key =
    (case map_of obj key of
       Some v \<Rightarrow> Own v
     | None \<Rightarrow> if key \<in> set Object_prototype then Inherited else Undefined)"

datatype js_error = TypeError

section \<open>The data model\<close>

datatype soil = clay | sandy | loam | rocky | peat

text \<open>
  The interface GeographicData.  The field soilType holds one of the five soil types; it
  is an option because getGeographicData fills it from an array read.
\<close>

record GeographicData =
  soilType :: "soil option"
  waterLevel :: real
  moistureLevel :: real
  temperature :: real
  rainfall :: real
  soilPH :: real
  elevation :: real

record ClimateZone =
  name :: string
  baseTemperature :: real
  baseRainfall :: real
  baseMoisture :: real
  dominantSoilType :: soil

section \<open>Climate zone, elevation, coastal influence\<close>

definition getClimateZone :: "real \<Rightarrow> ClimateZone" where
  "getClimateZone lat =
    (let absLat = \<bar>lat\<bar> in
     if absLat \<ge> 66.5 then
       \<lparr>name = ''Polar'', baseTemperature = -5, baseRainfall = 300, baseMoisture = 85,
        dominantSoilType = rocky\<rparr>
     else if absLat \<ge> 60 then
       \<lparr>name = ''Subarctic'', baseTemperature = 5, baseRainfall = 500, baseMoisture = 75,
        dominantSoilType = peat\<rparr>
     else if absLat \<ge> 40 then
       \<lparr>name = ''Continental'', baseTemperature = 15, baseRainfall = 800, baseMoisture = 65,
        dominantSoilType = loam\<rparr>
     else if absLat \<ge> 30 then
       \<lparr>name = ''Subtropical'', baseTemperature = 22, baseRainfall = 1200, baseMoisture = 70,
        dominantSoilType = clay\<rparr>
     else if absLat \<ge> 23.5 then
       \<lparr>name = ''Tropical'', baseTemperature = 27, baseRainfall = 2000, baseMoisture = 80,
        dominantSoilType = clay\<rparr>
     else
       \<lparr>name = ''Equatorial'', baseTemperature = 26, baseRainfall = 2500, baseMoisture = 85,
        dominantSoilType = loam\<rparr>)"

text \<open>The mountain ranges, each as (lat, lng, elevation), in the order of the source.\<close>

definition mountainousRegions :: "(real \<times> real \<times> real) list" where
  "mountainousRegions =
    [(40, -105, 2000), (46, 8, 1500), (28, 84, 3000), (-22, -65, 2500)]"

text \<open>
  The body of the forEach: one region's contribution is added to the running
  baseElevation when the point is nearer than 10 degrees.
\<close>

definition addRegion :: "real \<Rightarrow> real \<Rightarrow> real \<times> real \<times> real \<Rightarrow> real \<Rightarrow> real" where
  "addRegion lat lng region baseElevation =
    (case region of (rlat, rlng, relevation) \<Rightarrow>
       let distance = sqrt ((lat - rlat)\<^sup>2 + (lng - rlng)\<^sup>2) in
       if distance < 10 then baseElevation + relevation * (1 - distance / 10)
       else baseElevation)"

definition getElevationFromCoordinates :: "real \<Rightarrow> real \<Rightarrow> rng \<Rightarrow> real \<times> rng" where
  "getElevationFromCoordinates lat lng r =
    (let baseElevation = fold (addRegion lat lng) mountainousRegions 200;
         (u, r') = Math_random r;
         baseElevation = baseElevation + (u - 0.5) * 400
     in (max 0 (Math_round baseElevation), r'))"

text \<open>
  The sum \<^verbatim>\<open>lng + 180\<close> and the remainders are exact here.  In the code's doubles the
  remainder is exact too, but the sum is rounded; it is exact whenever lng is an integer.
  Facts that compare the values at two longitudes are therefore facts about the program
  only at integer longitudes, where every intermediate value is an integer.
\<close>

definition getCoastalInfluence :: "real \<Rightarrow> real \<Rightarrow> real" where
  "getCoastalInfluence lat lng =
    (let coastalProximity = min \<bar>js_rem lng 60\<bar> \<bar>js_rem (lng + 180) 60\<bar>
     in max 0 ((20 - coastalProximity) / 20))"

section \<open>getGeographicData\<close>

definition soilTypes :: "soil list" where
  "soilTypes = [clay, sandy, loam, rocky, peat]"

definition getGeographicData :: "real \<Rightarrow> real \<Rightarrow> rng \<Rightarrow> GeographicData \<times> rng" where
  "getGeographicData lat lng r0 =
    (let climateZone = getClimateZone lat;
         (elevation, r1) = getElevationFromCoordinates lat lng r0;
         coastalInfluence = getCoastalInfluence lat lng;

         elevationTempAdjustment = elevation * - 0.006;
         coastalTempModeration = coastalInfluence * 3;
         (u2, r2) = Math_random r1;
         seasonalVariation = (u2 - 0.5) * 10;
         temperature = Math_round (baseTemperature climateZone + elevationTempAdjustment
                         + coastalTempModeration + seasonalVariation);

         elevationRainfallEffect = (if elevation > 1000 then elevation * 0.5 else 0);
         coastalRainfallEffect = coastalInfluence * 300;
         continentalityEffect = (1 - coastalInfluence) * - 200;
         (u3, r3) = Math_random r2;
         rainfall = max 100 (Math_round (baseRainfall climateZone + elevationRainfallEffect
                         + coastalRainfallEffect + continentalityEffect + (u3 - 0.5) * 400));

         elevationMoistureEffect = (if elevation > 500 then - elevation * 0.01 else 0);
         rainfallMoistureEffect = (rainfall - 800) * 0.02;
         (u4, r4) = Math_random r3;
         moistureLevel = max 20 (min 100 (Math_round (baseMoisture climateZone
                         + elevationMoistureEffect + rainfallMoistureEffect
                         + coastalInfluence * 15 + (u4 - 0.5) * 20)));

         riverProximity = sin (lat * 0.1) * cos (lng * 0.1);
         groundwaterEffect = (if elevation < 100 then 20 else - elevation * 0.02);
         (u5, r5) = Math_random r4;
         waterLevel = max 10 (min 100 (Math_round (60 + (rainfall - 800) * 0.03
                         + riverProximity * 20 + groundwaterEffect + coastalInfluence * 10
                         + (u5 - 0.5) * 25)));

         soilType = Some (dominantSoilType climateZone);
         soilType = (if elevation > 2000 then Some rocky
                     else if coastalInfluence > 0.7 then Some sandy
                     else if rainfall > 2000 \<and> temperature > 20 then Some clay
                     else if temperature < 5 then Some peat
                     else soilType);
         (u6, r6) = Math_random r5;
         (soilType, r7) =
            (if u6 < 0.2 then
               (let (u7, r7) = Math_random r6
                in (array_get soilTypes (Math_floor (u7 * real (length soilTypes))), r7))
             else (soilType, r6));

         basePH = (if soilType = Some peat then 4.5
                   else if soilType = Some sandy then 6.5
                   else if soilType = Some clay then 7.2
                   else if soilType = Some rocky then 7.8 else 6.8);
         (u8, r8) = Math_random r7;
         soilPH = max 3 (min 9 (Math_round ((basePH + (u8 - 0.5) * 2) * 10) / 10))
     in (\<lparr>soilType = soilType, waterLevel = waterLevel, moistureLevel = moistureLevel,
          temperature = temperature, rainfall = rainfall, soilPH = soilPH,
          elevation = elevation\<rparr>, r8))"

section \<open>getCropSuitability\<close>

record CropRequirement =
  tempRange :: "real \<times> real"
  rainfallRange :: "real \<times> real"
  preferredSoil :: "soil list"
  phRange :: "real \<times> real"

definition cropRequirements :: "(string \<times> CropRequirement) list" where
  "cropRequirements =
    [(''Corn Production'',
        \<lparr>tempRange = (15, 30), rainfallRange = (600, 1200), preferredSoil = [loam, clay],
         phRange = (6.0, 7.0)\<rparr>),
     (''Wheat Production'',
        \<lparr>tempRange = (10, 25), rainfallRange = (400, 800), preferredSoil = [loam, clay],
         phRange = (6.5, 7.5)\<rparr>),
     (''Rice Production'',
        \<lparr>tempRange = (20, 35), rainfallRange = (1000, 2500), preferredSoil = [clay, loam],
         phRange = (5.5, 7.0)\<rparr>),
     (''Coffee Production'',
        \<lparr>tempRange = (18, 24), rainfallRange = (1200, 2000), preferredSoil = [loam, clay],
         phRange = (6.0, 7.0)\<rparr>),
     (''Soybean Production'',
        \<lparr>tempRange = (20, 30), rainfallRange = (500, 1000), preferredSoil = [loam, clay],
         phRange = (6.0, 7.5)\<rparr>),
     (''Tomato Production'',
        \<lparr>tempRange = (18, 27), rainfallRange = (400, 800), preferredSoil = [loam, sandy],
         phRange = (6.0, 7.0)\<rparr>),
     (''Potato Production'',
        \<lparr>tempRange = (15, 20), rainfallRange = (400, 700), preferredSoil = [loam, sandy],
         phRange = (5.5, 6.5)\<rparr>),
     (''Dairy Production'',
        \<lparr>tempRange = (5, 25), rainfallRange = (600, 1500), preferredSoil = [loam, clay],
         phRange = (6.0, 7.5)\<rparr>)]"

definition tempScore :: "GeographicData \<Rightarrow> CropRequirement \<Rightarrow> real" where
  "tempScore geoData requirements =
    (if temperature geoData \<ge> fst (tempRange requirements)
        \<and> temperature geoData \<le> snd (tempRange requirements) then 100
     else max 0 (100 - \<bar>temperature geoData
            - (fst (tempRange requirements) + snd (tempRange requirements)) / 2\<bar> * 5))"

definition rainfallScore :: "GeographicData \<Rightarrow> CropRequirement \<Rightarrow> real" where
  "rainfallScore geoData requirements =
    (if rainfall geoData \<ge> fst (rainfallRange requirements)
        \<and> rainfall geoData \<le> snd (rainfallRange requirements) then 100
     else max 0 (100 - \<bar>rainfall geoData
            - (fst (rainfallRange requirements) + snd (rainfallRange requirements)) / 2\<bar> * 0.1))"

definition soilScore :: "GeographicData \<Rightarrow> CropRequirement \<Rightarrow> real" where
  "soilScore geoData requirements =
    (if soilType geoData \<in> set (map Some (preferredSoil requirements)) then 100 else 60)"

definition phScore :: "GeographicData \<Rightarrow> CropRequirement \<Rightarrow> real" where
  "phScore geoData requirements =
    (if soilPH geoData \<ge> fst (phRange requirements)
        \<and> soilPH geoData \<le> snd (phRange requirements) then 100
     else max 0 (100 - \<bar>soilPH geoData
            - (fst (phRange requirements) + snd (phRange requirements)) / 2\<bar> * 20))"

text \<open>
  The lookup \<^verbatim>\<open>cropRequirements[cropType] || cropRequirements['Corn Production']\<close>: the
  right operand is taken only when the left one is \<^verbatim>\<open>undefined\<close>.
\<close>

definition lookupRequirements :: "string \<Rightarrow> CropRequirement property" where
  "lookupRequirements cropType =
    (case get_property cropRequirements cropType of
       Undefined \<Rightarrow> get_property cropRequirements ''Corn Production''
     | p \<Rightarrow> p)"

text \<open>
  The first thing the body does with the looked-up value is to read
  \<^verbatim>\<open>requirements.tempRange[0]\<close>.  On a table entry this is a number.  On an inherited
  value \<^verbatim>\<open>requirements.tempRange\<close> is \<^verbatim>\<open>undefined\<close>, and indexing \<^verbatim>\<open>undefined\<close> throws a
  TypeError.
\<close>

definition getCropSuitability :: "GeographicData \<Rightarrow> string \<Rightarrow> js_error + real" where
  "getCropSuitability geoData cropType =
    (case lookupRequirements cropType of
       Own requirements \<Rightarrow>
         Inr (Math_round ((tempScore geoData requirements + rainfallScore geoData requirements
                + soilScore geoData requirements + phScore geoData requirements) / 4))
     | Inherited \<Rightarrow> Inl TypeError
     | Undefined \<Rightarrow> Inl TypeError)"

text \<open>
  The same function as a call in the runtime, in the style of getGeographicData: the
  random source goes in and comes out with the result.  The body of getCropSuitability
  contains no call of \<^verbatim>\<open>Math.random\<close>, so no draw is taken on any of its paths.
\<close>

definition getCropSuitability_run ::
  "GeographicData \<Rightarrow> string \<Rightarrow> rng \<Rightarrow> (js_error + real) \<times> rng" where
  "getCropSuitability_run geoData cropType r =
    (case lookupRequirements cropType of
       Own requirements \<Rightarrow>
         (Inr (Math_round ((tempScore geoData requirements
                + rainfallScore geoData requirements
                + soilScore geoData requirements + phScore geoData requirements) / 4)), r)
     | Inherited \<Rightarrow> (Inl TypeError, r)
     | Undefined \<Rightarrow> (Inl TypeError, r))"


section \<open>Concrete inputs used below\<close>

text \<open>
  The random source whose every draw is the midpoint 0.5: every jitter term is then zero.
  A source that differs from a source r in the draw number i only is written
  \<open>r(i := v)\<close>.
\<close>

definition midpoint_draws :: rng where
  "midpoint_draws = (\<lambda>n. 1 / 2)"

section \<open>Facts about the runtime operations\<close>

lemma Math_round_Ints: "Math_round x \<in> \<int>"
  by (simp add: Math_round_def)

lemma max_Ints: "a \<in> \<int> \<Longrightarrow> b \<in> \<int> \<Longrightarrow> max a b \<in> (\<int> :: real set)"
  by (simp add: max_def)

lemma min_Ints: "a \<in> \<int> \<Longrightarrow> b \<in> \<int> \<Longrightarrow> min a b \<in> (\<int> :: real set)"
  by (simp add: min_def)

lemma Math_round_between:
  assumes "of_int a \<le> x" "x \<le> of_int b"
  shows "of_int a \<le> Math_round x \<and> Math_round x \<le> of_int b"
proof -
  have "a \<le> \<lfloor>x + 1 / 2\<rfloor>" using assms(1) by (simp add: le_floor_iff)
  moreover have "\<lfloor>x + 1 / 2\<rfloor> < b + 1"
  proof -
    have "x + 1 / 2 < of_int (b + 1)" using assms(2) by simp
    then show ?thesis by (simp only: floor_less_iff)
  qed
  ultimately show ?thesis by (simp add: Math_round_def)
qed

lemma unit_draws_fst: "unit_draws r \<Longrightarrow> 0 \<le> fst (Math_random r) \<and> fst (Math_random r) < 1"
  by (simp add: Math_random_def unit_draws_def)

lemma unit_draws_snd: "unit_draws r \<Longrightarrow> unit_draws (snd (Math_random r))"
  by (simp add: Math_random_def unit_draws_def)

lemma unit_draws_midpoint: "unit_draws midpoint_draws"
  by (simp add: unit_draws_def midpoint_draws_def)

lemma unit_draws_upd: "unit_draws r \<Longrightarrow> 0 \<le> v \<Longrightarrow> v < 1 \<Longrightarrow> unit_draws (r(i := v))"
  by (simp add: unit_draws_def)

lemma sqrt_less_10: "sqrt x < 10 \<longleftrightarrow> x < 100"
proof -
  have "sqrt 100 = 10" using real_sqrt_abs[of 10] by simp
  then show ?thesis using real_sqrt_less_iff[of x 100] by simp
qed

subsection \<open>The remainder by 60\<close>

lemma js_rem_nonneg: "0 \<le> x \<Longrightarrow> js_rem x 60 = x - 60 * of_int \<lfloor>x / 60\<rfloor>"
  by (simp add: js_rem_def)

lemma js_rem_nonpos: "x \<le> 0 \<Longrightarrow> js_rem x 60 = x - 60 * of_int \<lceil>x / 60\<rceil>"
proof (cases "x = 0")
  case True
  then show ?thesis by (simp add: js_rem_def)
next
  case False
  assume "x \<le> 0"
  with False have "x < 0" by simp
  then show ?thesis by (simp add: js_rem_def)
qed

lemma floor_shift: "\<lfloor>(x + 60 * of_int k) / 60\<rfloor> = \<lfloor>x / (60::real)\<rfloor> + k"
proof -
  have e: "(x + 60 * of_int k) / 60 = x / 60 + of_int k" by (simp add: field_simps)
  show ?thesis unfolding e by (rule floor_add_int[symmetric])
qed

lemma ceiling_shift: "\<lceil>(x + 60 * of_int k) / 60\<rceil> = \<lceil>x / (60::real)\<rceil> + k"
proof -
  have e: "(x + 60 * of_int k) / 60 = x / 60 + of_int k" by (simp add: field_simps)
  show ?thesis unfolding e by (rule ceiling_add_of_int)
qed

text \<open>On one side of zero the remainder has period 60.\<close>

lemma js_rem_shift_nonneg:
  assumes "0 \<le> x" "0 \<le> x + 60 * of_int k"
  shows "js_rem (x + 60 * of_int k) 60 = js_rem x 60"
proof -
  have "js_rem (x + 60 * of_int k) 60
          = (x + 60 * of_int k) - 60 * of_int \<lfloor>(x + 60 * of_int k) / 60\<rfloor>"
    by (rule js_rem_nonneg) fact
  also have "\<dots> = (x + 60 * of_int k) - 60 * of_int (\<lfloor>x / 60\<rfloor> + k)"
    by (simp only: floor_shift)
  also have "\<dots> = x - 60 * of_int \<lfloor>x / 60\<rfloor>"
    by (simp add: algebra_simps)
  also have "\<dots> = js_rem x 60"
    by (rule js_rem_nonneg[symmetric]) fact
  finally show ?thesis .
qed

lemma js_rem_shift_nonpos:
  assumes "x \<le> 0" "x + 60 * of_int k \<le> 0"
  shows "js_rem (x + 60 * of_int k) 60 = js_rem x 60"
proof -
  have "js_rem (x + 60 * of_int k) 60
          = (x + 60 * of_int k) - 60 * of_int \<lceil>(x + 60 * of_int k) / 60\<rceil>"
    by (rule js_rem_nonpos) fact
  also have "\<dots> = (x + 60 * of_int k) - 60 * of_int (\<lceil>x / 60\<rceil> + k)"
    by (simp only: ceiling_shift)
  also have "\<dots> = x - 60 * of_int \<lceil>x / 60\<rceil>"
    by (simp add: algebra_simps)
  also have "\<dots> = js_rem x 60"
    by (rule js_rem_nonpos[symmetric]) fact
  finally show ?thesis .
qed

lemma js_rem_band:
  assumes "0 \<le> k" "60 * of_int k \<le> x" "x < 60 * of_int k + 60"
  shows "js_rem x 60 = x - 60 * of_int k"
proof -
  have "0 \<le> 60 * (of_int k :: real)" using assms(1) by simp
  then have x: "0 \<le> x" using assms(2) by linarith
  have "\<lfloor>x / 60\<rfloor> = k"
    by (rule floor_unique) (use assms in \<open>simp_all add: field_simps\<close>)
  then show ?thesis using js_rem_nonneg[OF x] by simp
qed

lemma js_rem_small_neg:
  assumes "- 60 < x" "x \<le> 0"
  shows "js_rem x 60 = x"
proof -
  have "\<lceil>x / 60\<rceil> = 0"
    by (rule ceiling_unique) (use assms in \<open>simp_all add: field_simps\<close>)
  then show ?thesis using js_rem_nonpos[OF assms(2)] by simp
qed


section \<open>Climate zones\<close>

text \<open>
  Claim C3.  getClimateZone classifies a latitude by its absolute value alone, with the
  breakpoints 66.5 (Polar), 60 (Subarctic), 40 (Continental), 30 (Subtropical), 23.5
  (Tropical) and Equatorial below; each lower bound is inclusive.  In particular 66.5 and
  -66.5 are Polar, 66.49 is Subarctic, and 42.0308 is Continental, whose entry has base
  temperature 15 and base rainfall 800.
\<close>

theorem getClimateZone_breakpoints:
  "getClimateZone (- lat) = getClimateZone lat
   \<and> getClimateZone \<bar>lat\<bar> = getClimateZone lat
   \<and> name (getClimateZone lat) =
        (if \<bar>lat\<bar> \<ge> 66.5 then ''Polar''
         else if \<bar>lat\<bar> \<ge> 60 then ''Subarctic''
         else if \<bar>lat\<bar> \<ge> 40 then ''Continental''
         else if \<bar>lat\<bar> \<ge> 30 then ''Subtropical''
         else if \<bar>lat\<bar> \<ge> 23.5 then ''Tropical''
         else ''Equatorial'')
   \<and> name (getClimateZone 66.5) = ''Polar''
   \<and> name (getClimateZone (- 66.5)) = ''Polar''
   \<and> name (getClimateZone 66.49) = ''Subarctic''
   \<and> name (getClimateZone 42.0308) = ''Continental''
   \<and> baseTemperature (getClimateZone 42.0308) = 15
   \<and> baseRainfall (getClimateZone 42.0308) = 800"
  by (simp add: getClimateZone_def Let_def)

section \<open>Coastal influence\<close>

lemma getCoastalInfluence_range:
  "0 \<le> getCoastalInfluence lat lng \<and> getCoastalInfluence lat lng \<le> 1"
  by (simp add: getCoastalInfluence_def Let_def)

lemma getCoastalInfluence_lat: "getCoastalInfluence lat lng = getCoastalInfluence lat' lng"
  by (simp add: getCoastalInfluence_def)

text \<open>
  In exact arithmetic, a step of 60 degrees east of the prime meridian changes nothing.
\<close>

lemma period_east:
  assumes "0 \<le> lng"
  shows "getCoastalInfluence lat (lng + 60) = getCoastalInfluence lat lng"
proof -
  have a: "js_rem (lng + 60) 60 = js_rem lng 60"
    using js_rem_shift_nonneg[of lng 1] assms by simp
  have b: "js_rem (lng + 60 + 180) 60 = js_rem (lng + 180) 60"
    using js_rem_shift_nonneg[of "lng + 180" 1] assms
    by (simp add: add.commute add.left_commute)
  show ?thesis by (simp only: getCoastalInfluence_def a b)
qed

text \<open>
  Neither does it west of it, again in exact arithmetic, as long as the step does not
  cross it.
\<close>

lemma period_west:
  assumes "- 180 \<le> lng" "lng + 60 \<le> 0"
  shows "getCoastalInfluence lat (lng + 60) = getCoastalInfluence lat lng"
proof -
  have a: "js_rem (lng + 60) 60 = js_rem lng 60"
    using js_rem_shift_nonpos[of lng 1] assms by simp
  have b: "js_rem (lng + 60 + 180) 60 = js_rem (lng + 180) 60"
    using js_rem_shift_nonneg[of "lng + 180" 1] assms
    by (simp add: add.commute add.left_commute)
  show ?thesis by (simp only: getCoastalInfluence_def a b)
qed

text \<open>
  A step across the prime meridian: the remainder of the negative longitude is negative,
  so its absolute value measures the distance to 0 and not to -60.
\<close>

lemma straddle_rems:
  assumes "- 60 < lng" "lng < 0"
  shows "js_rem lng 60 = lng" "js_rem (lng + 180) 60 = lng + 60"
    "js_rem (lng + 60) 60 = lng + 60" "js_rem (lng + 60 + 180) 60 = lng + 60"
proof -
  show "js_rem lng 60 = lng" using assms by (simp add: js_rem_small_neg)
  show "js_rem (lng + 180) 60 = lng + 60"
    using js_rem_band[of 2 "lng + 180"] assms by simp
  show "js_rem (lng + 60) 60 = lng + 60"
    using js_rem_band[of 0 "lng + 60"] assms by simp
  show "js_rem (lng + 60 + 180) 60 = lng + 60"
    using js_rem_band[of 3 "lng + 60 + 180"] assms by simp
qed

lemma period_straddle:
  assumes "- 60 < lng" "lng \<le> - 20"
  shows "getCoastalInfluence lat (lng + 60) = getCoastalInfluence lat lng"
proof -
  have "lng < 0" using assms by simp
  note r = straddle_rems[OF assms(1) this]
  show ?thesis unfolding getCoastalInfluence_def Let_def r
    using assms by (simp add: min_def max_def)
qed

text \<open>
  In the 20 degrees west of the prime meridian the influence is positive, and it is zero
  60 degrees further east: there the function is not periodic.
\<close>

lemma getCoastalInfluence_west_of_zero:
  assumes "- 20 < lng" "lng < 0"
  shows "getCoastalInfluence lat (lng + 60) = 0"
    and "getCoastalInfluence lat lng = (20 + lng) / 20"
proof -
  have "- 60 < lng" using assms by simp
  note r = straddle_rems[OF this assms(2)]
  show "getCoastalInfluence lat (lng + 60) = 0"
    unfolding getCoastalInfluence_def Let_def r using assms
    by (simp add: min_def max_def)
  show "getCoastalInfluence lat lng = (20 + lng) / 20"
    unfolding getCoastalInfluence_def Let_def r using assms
    by (simp add: min_def max_def)
qed

text \<open>
  At an integer longitude from -180 on, outside -19, ..., -1, a step of 60 degrees
  changes nothing.
\<close>

lemma period_integer:
  assumes "- 180 \<le> k" "k \<le> - 20 \<or> 0 \<le> k"
  shows "getCoastalInfluence lat (of_int k + 60) = getCoastalInfluence lat (of_int k)"
proof -
  consider "0 \<le> (of_int k :: real)" | "(of_int k :: real) + 60 \<le> 0"
    | "- 60 < (of_int k :: real)" "(of_int k :: real) \<le> - 20"
    using assms(2) by (cases "k \<le> - 60") auto
  then show ?thesis
  proof cases
    case 1
    then show ?thesis by (rule period_east)
  next
    case 2
    have "- 180 \<le> (of_int k :: real)" using assms(1) by simp
    then show ?thesis using 2 by (rule period_west)
  next
    case 3
    then show ?thesis by (rule period_straddle)
  qed
qed

text \<open>
  Claim C7, as amended.  The coastal influence lies in [0,1] for every input and does not
  depend on the latitude.  It is not a 60-periodic function of the longitude.  At an
  integer longitude k with k and k + 60 both in [-180,180], the value at k + 60 equals
  the value at k whenever k is not one of -19, ..., -1.
\<close>

theorem getCoastalInfluence_integer_period:
  "0 \<le> getCoastalInfluence lat lng \<and> getCoastalInfluence lat lng \<le> 1
   \<and> getCoastalInfluence lat lng = getCoastalInfluence lat' lng
   \<and> (- 180 \<le> k \<and> k \<le> 120 \<and> (k \<le> - 20 \<or> 0 \<le> k)
        \<longrightarrow> getCoastalInfluence lat (of_int k + 60) = getCoastalInfluence lat (of_int k))"
  using getCoastalInfluence_range getCoastalInfluence_lat period_integer by blast

text \<open>
  The amended claim at the integer longitude -70 (a step from -70 to -10) and the
  latitudes 0 and 45.
\<close>

theorem getCoastalInfluence_integer_period_witness:
  "- 180 \<le> (- 70 :: int) \<and> (- 70 :: int) \<le> 120 \<and> ((- 70 :: int) \<le> - 20 \<or> (0 :: int) \<le> - 70)
   \<and> 0 \<le> getCoastalInfluence 0 (- 70) \<and> getCoastalInfluence 0 (- 70) \<le> 1
   \<and> getCoastalInfluence 0 (- 70) = getCoastalInfluence 45 (- 70)
   \<and> getCoastalInfluence 0 (- 70 + 60) = getCoastalInfluence 0 (- 70)"
  using getCoastalInfluence_integer_period[of 0 "- 70" 45 "- 70"] by simp

text \<open>
  Claim C7 as stated fails: -10 and -10 + 60 = 50 are both in [-180,180], the influence
  at -10 is 1/2 and the influence at 50 is 0.
\<close>

theorem getCoastalInfluence_not_periodic:
  "- 180 \<le> (- 10 :: real) \<and> (- 10 :: real) + 60 \<le> 180
   \<and> getCoastalInfluence 0 (- 10) = 1 / 2 \<and> getCoastalInfluence 0 (- 10 + 60) = 0"
  using getCoastalInfluence_west_of_zero[of "- 10" 0] by simp


section \<open>The ranges of getGeographicData\<close>

lemma unit_draws_elevation:
  "unit_draws r \<Longrightarrow> unit_draws (snd (getElevationFromCoordinates lat lng r))"
  unfolding getElevationFromCoordinates_def Let_def split_beta snd_conv
  by (rule unit_draws_snd)

lemma getElevationFromCoordinates_range:
  "fst (getElevationFromCoordinates lat lng r) \<in> \<int>
   \<and> 0 \<le> fst (getElevationFromCoordinates lat lng r)"
  unfolding getElevationFromCoordinates_def Let_def split_beta fst_conv
  by (simp add: Math_round_Ints max_Ints)

text \<open>
  The random pick of a soil type reads the array inside its bounds, because the draw is
  below 1 and not negative.
\<close>

lemma soilTypes_pick:
  assumes "0 \<le> u" "u < 1"
  shows "array_get soilTypes (Math_floor (u * real (length soilTypes)))
           \<in> {Some clay, Some sandy, Some loam, Some rocky, Some peat}"
proof -
  let ?i = "\<lfloor>u * 5\<rfloor>"
  have lo: "0 \<le> ?i" using assms by simp
  have "u * 5 < 5" using assms by simp
  then have hi: "?i < 5" by (simp add: floor_less_iff)
  from lo hi have "?i = 0 \<or> ?i = 1 \<or> ?i = 2 \<or> ?i = 3 \<or> ?i = 4" by arith
  then show ?thesis
    using assms by (auto simp: array_get_def soilTypes_def Math_floor_def)
qed

lemma soil_choice:
  assumes "unit_draws r"
  shows "(if c1 then array_get soilTypes
                       (Math_floor (fst (Math_random r) * real (length soilTypes)))
          else if c2 then Some rocky else if c3 then Some sandy else if c4 then Some clay
          else if c5 then Some peat else Some d)
         \<in> {Some clay, Some sandy, Some loam, Some rocky, Some peat}"
proof (cases c1)
  case True
  from unit_draws_fst[OF assms]
  have "0 \<le> fst (Math_random r)" "fst (Math_random r) < 1" by simp_all
  from soilTypes_pick[OF this] True show ?thesis by simp
next
  case False
  then show ?thesis by (cases d) simp_all
qed

lemma fst_if_pair: "fst (if c then (x, a) else (y, b)) = (if c then x else y)"
  by simp

lemma getGeographicData_soilType:
  assumes "unit_draws r"
  shows "soilType (fst (getGeographicData lat lng r))
           \<in> {Some clay, Some sandy, Some loam, Some rocky, Some peat}"
  unfolding getGeographicData_def Let_def split_beta fst_conv snd_conv fst_if_pair
    GeographicData.select_convs
  by (rule soil_choice) (intro unit_draws_snd unit_draws_elevation assms)

text \<open>The record that getGeographicData returns, with the clamps of each field visible.\<close>

lemma getGeographicData_shape:
  "\<exists>st x y z w p r'. getGeographicData lat lng r =
     (\<lparr>soilType = st, waterLevel = max 10 (min 100 (Math_round x)),
       moistureLevel = max 20 (min 100 (Math_round y)), temperature = Math_round z,
       rainfall = max 100 (Math_round w), soilPH = max 3 (min 9 (Math_round p / 10)),
       elevation = fst (getElevationFromCoordinates lat lng r)\<rparr>, r')"
  unfolding getGeographicData_def Let_def split_beta
  by (intro exI) (rule refl)

lemma getGeographicData_numeric_ranges:
  "moistureLevel (fst (getGeographicData lat lng r)) \<in> \<int>
   \<and> 20 \<le> moistureLevel (fst (getGeographicData lat lng r))
   \<and> moistureLevel (fst (getGeographicData lat lng r)) \<le> 100
   \<and> waterLevel (fst (getGeographicData lat lng r)) \<in> \<int>
   \<and> 10 \<le> waterLevel (fst (getGeographicData lat lng r))
   \<and> waterLevel (fst (getGeographicData lat lng r)) \<le> 100
   \<and> rainfall (fst (getGeographicData lat lng r)) \<in> \<int>
   \<and> 100 \<le> rainfall (fst (getGeographicData lat lng r))
   \<and> elevation (fst (getGeographicData lat lng r)) \<in> \<int>
   \<and> 0 \<le> elevation (fst (getGeographicData lat lng r))
   \<and> 3 \<le> soilPH (fst (getGeographicData lat lng r))
   \<and> soilPH (fst (getGeographicData lat lng r)) \<le> 9"
proof -
  obtain st x y z w p r' where "getGeographicData lat lng r =
     (\<lparr>soilType = st, waterLevel = max 10 (min 100 (Math_round x)),
       moistureLevel = max 20 (min 100 (Math_round y)), temperature = Math_round z,
       rainfall = max 100 (Math_round w), soilPH = max 3 (min 9 (Math_round p / 10)),
       elevation = fst (getElevationFromCoordinates lat lng r)\<rparr>, r')"
    using getGeographicData_shape by blast
  then show ?thesis using getElevationFromCoordinates_range[of lat lng r]
    by (simp add: Math_round_Ints max_Ints min_Ints)
qed

text \<open>
  Claim C1.  For every latitude and longitude and every random source whose draws lie in
  [0,1), the record returned by getGeographicData has moistureLevel an integer in
  [20,100], waterLevel an integer in [10,100], rainfall an integer of at least 100,
  elevation an integer of at least 0, soilPH in [3,9], and soilType one of clay, sandy,
  loam, rocky, peat.
\<close>

theorem getGeographicData_ranges:
  assumes "unit_draws r"
  shows "moistureLevel (fst (getGeographicData lat lng r)) \<in> \<int>
   \<and> 20 \<le> moistureLevel (fst (getGeographicData lat lng r))
   \<and> moistureLevel (fst (getGeographicData lat lng r)) \<le> 100
   \<and> waterLevel (fst (getGeographicData lat lng r)) \<in> \<int>
   \<and> 10 \<le> waterLevel (fst (getGeographicData lat lng r))
   \<and> waterLevel (fst (getGeographicData lat lng r)) \<le> 100
   \<and> rainfall (fst (getGeographicData lat lng r)) \<in> \<int>
   \<and> 100 \<le> rainfall (fst (getGeographicData lat lng r))
   \<and> elevation (fst (getGeographicData lat lng r)) \<in> \<int>
   \<and> 0 \<le> elevation (fst (getGeographicData lat lng r))
   \<and> 3 \<le> soilPH (fst (getGeographicData lat lng r))
   \<and> soilPH (fst (getGeographicData lat lng r)) \<le> 9
   \<and> soilType (fst (getGeographicData lat lng r))
        \<in> {Some clay, Some sandy, Some loam, Some rocky, Some peat}"
  using getGeographicData_numeric_ranges[of lat lng r] getGeographicData_soilType[OF assms]
  by blast

text \<open>
  Claim C1 at the coordinates (42.0308, -93.6319) with the random source overridden to
  return the midpoint.
\<close>

theorem getGeographicData_ranges_witness:
  "unit_draws midpoint_draws
   \<and> moistureLevel (fst (getGeographicData 42.0308 (- 93.6319) midpoint_draws)) \<in> \<int>
   \<and> 20 \<le> moistureLevel (fst (getGeographicData 42.0308 (- 93.6319) midpoint_draws))
   \<and> moistureLevel (fst (getGeographicData 42.0308 (- 93.6319) midpoint_draws)) \<le> 100
   \<and> waterLevel (fst (getGeographicData 42.0308 (- 93.6319) midpoint_draws)) \<in> \<int>
   \<and> 10 \<le> waterLevel (fst (getGeographicData 42.0308 (- 93.6319) midpoint_draws))
   \<and> waterLevel (fst (getGeographicData 42.0308 (- 93.6319) midpoint_draws)) \<le> 100
   \<and> rainfall (fst (getGeographicData 42.0308 (- 93.6319) midpoint_draws)) \<in> \<int>
   \<and> 100 \<le> rainfall (fst (getGeographicData 42.0308 (- 93.6319) midpoint_draws))
   \<and> elevation (fst (getGeographicData 42.0308 (- 93.6319) midpoint_draws)) \<in> \<int>
   \<and> 0 \<le> elevation (fst (getGeographicData 42.0308 (- 93.6319) midpoint_draws))
   \<and> 3 \<le> soilPH (fst (getGeographicData 42.0308 (- 93.6319) midpoint_draws))
   \<and> soilPH (fst (getGeographicData 42.0308 (- 93.6319) midpoint_draws)) \<le> 9
   \<and> soilType (fst (getGeographicData 42.0308 (- 93.6319) midpoint_draws))
        \<in> {Some clay, Some sandy, Some loam, Some rocky, Some peat}"
proof -
  have h: "unit_draws midpoint_draws"
    by (simp add: unit_draws_def midpoint_draws_def)
  show ?thesis
    using h getGeographicData_ranges[OF h, of "42.0308" "- 93.6319"] by blast
qed


section \<open>Crop suitability\<close>

subsection \<open>The lookup of the crop profile\<close>

lemma get_property_corn:
  "get_property cropRequirements ''Corn Production'' =
     Own \<lparr>tempRange = (15, 30), rainfallRange = (600, 1200), preferredSoil = [loam, clay],
          phRange = (6.0, 7.0)\<rparr>"
  by (simp add: get_property_def cropRequirements_def)

lemma lookupRequirements_corn:
  "lookupRequirements ''Corn Production'' =
     Own \<lparr>tempRange = (15, 30), rainfallRange = (600, 1200), preferredSoil = [loam, clay],
          phRange = (6.0, 7.0)\<rparr>"
  by (simp add: lookupRequirements_def get_property_corn)

lemma known_identifiers:
  "map fst cropRequirements =
     [''Corn Production'', ''Wheat Production'', ''Rice Production'', ''Coffee Production'',
      ''Soybean Production'', ''Tomato Production'', ''Potato Production'',
      ''Dairy Production'']"
  by (simp add: cropRequirements_def)

text \<open>A key that is neither in the table nor inherited falls back to the corn profile.\<close>

lemma lookupRequirements_fallback:
  assumes "cropType \<notin> set (map fst cropRequirements)" "cropType \<notin> set Object_prototype"
  shows "lookupRequirements cropType = lookupRequirements ''Corn Production''"
proof -
  have "map_of cropRequirements cropType = None"
    using assms(1) by (simp add: map_of_eq_None_iff)
  then have "lookupRequirements cropType = get_property cropRequirements ''Corn Production''"
    using assms(2) by (simp add: lookupRequirements_def get_property_def)
  then show ?thesis by (simp add: get_property_corn lookupRequirements_corn)
qed

text \<open>Every key that is not inherited yields a profile of the table.\<close>

lemma lookupRequirements_not_inherited:
  assumes "cropType \<notin> set Object_prototype"
  shows "\<exists>q. lookupRequirements cropType = Own q"
proof (cases "map_of cropRequirements cropType")
  case None
  then have "lookupRequirements cropType = get_property cropRequirements ''Corn Production''"
    using assms by (simp add: lookupRequirements_def get_property_def)
  then show ?thesis by (simp add: get_property_corn)
next
  case (Some q)
  then show ?thesis by (simp add: lookupRequirements_def get_property_def)
qed

text \<open>
  An inherited key is not a key of the table, so the lookup returns the inherited value
  and the fallback is not taken.
\<close>

lemma lookupRequirements_inherited:
  assumes "cropType \<in> set Object_prototype"
  shows "lookupRequirements cropType = Inherited"
proof -
  have "map_of cropRequirements cropType = None"
    using assms unfolding Object_prototype_def set_simps insert_iff empty_iff
    by (elim disjE FalseE) (simp_all add: cropRequirements_def)
  then show ?thesis using assms by (simp add: lookupRequirements_def get_property_def)
qed

lemma constructor_inherited: "''constructor'' \<in> set Object_prototype"
  by (simp add: Object_prototype_def)

subsection \<open>The component scores\<close>

lemma tempScore_range: "0 \<le> tempScore g q \<and> tempScore g q \<le> 100"
  by (simp add: tempScore_def)

lemma rainfallScore_range: "0 \<le> rainfallScore g q \<and> rainfallScore g q \<le> 100"
  by (simp add: rainfallScore_def)

lemma phScore_range: "0 \<le> phScore g q \<and> phScore g q \<le> 100"
  by (simp add: phScore_def)

lemma soilScore_range: "60 \<le> soilScore g q \<and> soilScore g q \<le> 100"
  by (simp add: soilScore_def)

text \<open>
  Whenever the lookup yields a profile of the table, the score is an integer between 15
  and 100.
\<close>

lemma getCropSuitability_of_profile:
  assumes "lookupRequirements cropType = Own q"
  shows "\<exists>s. getCropSuitability g cropType = Inr s \<and> s \<in> \<int> \<and> 15 \<le> s \<and> s \<le> 100"
proof -
  let ?avg = "(tempScore g q + rainfallScore g q + soilScore g q + phScore g q) / 4"
  have "15 \<le> ?avg" "?avg \<le> 100"
    using tempScore_range[of g q] rainfallScore_range[of g q] soilScore_range[of g q]
      phScore_range[of g q] by simp_all
  then have "of_int 15 \<le> Math_round ?avg \<and> Math_round ?avg \<le> of_int 100"
    by (intro Math_round_between) simp_all
  then show ?thesis using assms by (simp add: getCropSuitability_def Math_round_Ints)
qed

text \<open>
  So for every crop identifier other than the twelve inherited property names, and for
  every attribute bundle, getCropSuitability returns an integer in [15,100], and an
  identifier outside the table scores as corn does.
\<close>

lemma getCropSuitability_range_not_inherited:
  assumes "cropType \<notin> set Object_prototype"
  shows "\<exists>s. getCropSuitability g cropType = Inr s \<and> s \<in> \<int> \<and> 15 \<le> s \<and> s \<le> 100"
  using lookupRequirements_not_inherited[OF assms] getCropSuitability_of_profile by blast

lemma getCropSuitability_fallback_not_inherited:
  assumes "cropType \<notin> set (map fst cropRequirements)" "cropType \<notin> set Object_prototype"
  shows "getCropSuitability g cropType = getCropSuitability g ''Corn Production''"
  using lookupRequirements_fallback[OF assms] by (simp add: getCropSuitability_def)

lemma getCropSuitability_inherited:
  assumes "cropType \<in> set Object_prototype"
  shows "getCropSuitability g cropType = Inl TypeError"
  using lookupRequirements_inherited[OF assms] by (simp add: getCropSuitability_def)

lemma getCropSuitability_corn_example:
  "getCropSuitability 
     \<lparr>soilType = Some loam, waterLevel = 60, moistureLevel = 65, temperature = 22, rainfall = 800, soilPH = 6.5, elevation = 200\<rparr> ''Corn Production'' = Inr 100"
  by (simp add: getCropSuitability_def lookupRequirements_corn tempScore_def
      rainfallScore_def soilScore_def phScore_def Math_round_def)

subsection \<open>The claims about getCropSuitability\<close>

text \<open>
  Claim C2 says that getCropSuitability returns an integer in [0,100] and has no error
  path, for every crop identifier string.  The code does so for every identifier except
  the inherited property names (lemma \<open>getCropSuitability_range_not_inherited\<close>).  At
  the identifier \<^verbatim>\<open>constructor\<close> the lookup finds the inherited constructor function, the
  fallback to corn is skipped, and the call ends in a TypeError.
\<close>

theorem getCropSuitability_constructor_throws:
  "getCropSuitability 
     \<lparr>soilType = Some loam, waterLevel = 60, moistureLevel = 65, temperature = 22, rainfall = 800, soilPH = 6.5, elevation = 200\<rparr> ''constructor'' = Inl TypeError"
  by (rule getCropSuitability_inherited) (rule constructor_inherited)

text \<open>
  Claim C4 says that every identifier outside the eight predefined ones scores exactly as
  \<^verbatim>\<open>Corn Production\<close>.  The identifier \<^verbatim>\<open>constructor\<close> is not one of the eight, and its
  result differs from the corn result (a TypeError against the score 100).
\<close>

theorem getCropSuitability_constructor_not_corn:
  "''constructor'' \<notin> set (map fst cropRequirements)
   \<and> getCropSuitability 
     \<lparr>soilType = Some loam, waterLevel = 60, moistureLevel = 65, temperature = 22, rainfall = 800, soilPH = 6.5, elevation = 200\<rparr> ''constructor''
       \<noteq> getCropSuitability 
     \<lparr>soilType = Some loam, waterLevel = 60, moistureLevel = 65, temperature = 22, rainfall = 800, soilPH = 6.5, elevation = 200\<rparr> ''Corn Production''"
proof -
  have "''constructor'' \<notin> set (map fst cropRequirements)"
    by (simp add: known_identifiers)
  then show ?thesis
    unfolding getCropSuitability_corn_example
      getCropSuitability_inherited[OF constructor_inherited]
    by simp
qed

lemma getCropSuitability_run_eq:
  "getCropSuitability_run geoData cropType r = (getCropSuitability geoData cropType, r)"
  by (simp add: getCropSuitability_run_def getCropSuitability_def split: property.splits)

text \<open>
  Claim C5.  getCropSuitability is deterministic and consumes no random source.  Run
  from any two states r and r' of the random source, a call with the same bundle and the
  same identifier gives the same result (a score or the same error); the call hands the
  random source back as it received it; two calls in a row agree, and they still agree
  when a call of getGeographicData, which does take draws, runs between them.
\<close>

theorem getCropSuitability_run_deterministic:
  "fst (getCropSuitability_run geoData cropType r)
     = fst (getCropSuitability_run geoData cropType r')
   \<and> snd (getCropSuitability_run geoData cropType r) = r
   \<and> fst (getCropSuitability_run geoData cropType r) = getCropSuitability geoData cropType
   \<and> (let (a, r1) = getCropSuitability_run geoData cropType r;
           (b, r2) = getCropSuitability_run geoData cropType r1
       in a = b \<and> r2 = r)
   \<and> (let (a, r1) = getCropSuitability_run geoData cropType r;
           (x, r2) = getGeographicData lat lng r1;
           (b, r3) = getCropSuitability_run geoData cropType r2
       in a = b \<and> r3 = r2)"
  by (simp add: getCropSuitability_run_eq split_beta)

text \<open>
  Claim C8.  For the bundle with temperature 22, rainfall 800, soil type loam and pH 6.5
  (whatever its other fields), the profile of \<^verbatim>\<open>Corn Production\<close> has the ranges
  [15,30], [600,1200], [loam, clay] and [6.0,7.0], each of the four component scores is
  100, and the overall score is 100.
\<close>

theorem getCropSuitability_corn_scenario:
  "\<exists>q. lookupRequirements ''Corn Production'' = Own q
     \<and> tempRange q = (15, 30) \<and> rainfallRange q = (600, 1200)
     \<and> preferredSoil q = [loam, clay] \<and> phRange q = (6.0, 7.0)
     \<and> tempScore \<lparr>soilType = Some loam, waterLevel = w, moistureLevel = m,
          temperature = 22, rainfall = 800, soilPH = 6.5, elevation = e\<rparr> q = 100
     \<and> rainfallScore \<lparr>soilType = Some loam, waterLevel = w, moistureLevel = m,
          temperature = 22, rainfall = 800, soilPH = 6.5, elevation = e\<rparr> q = 100
     \<and> soilScore \<lparr>soilType = Some loam, waterLevel = w, moistureLevel = m,
          temperature = 22, rainfall = 800, soilPH = 6.5, elevation = e\<rparr> q = 100
     \<and> phScore \<lparr>soilType = Some loam, waterLevel = w, moistureLevel = m,
          temperature = 22, rainfall = 800, soilPH = 6.5, elevation = e\<rparr> q = 100
     \<and> getCropSuitability \<lparr>soilType = Some loam, waterLevel = w, moistureLevel = m,
          temperature = 22, rainfall = 800, soilPH = 6.5, elevation = e\<rparr>
          ''Corn Production'' = Inr 100"
  by (simp add: getCropSuitability_def lookupRequirements_corn tempScore_def
      rainfallScore_def soilScore_def phScore_def Math_round_def)

text \<open>
  Claim C9 says that getCropSuitability returns at least 15 for every crop identifier
  string.  Whenever the code returns a score it is at least 15 (lemma
  \<open>getCropSuitability_of_profile\<close>), but at the identifier \<^verbatim>\<open>constructor\<close> it returns
  no score: the result is an error.
\<close>

theorem getCropSuitability_constructor_no_score:
  "isl (getCropSuitability 
     \<lparr>soilType = Some loam, waterLevel = 60, moistureLevel = 65, temperature = 22, rainfall = 800, soilPH = 6.5, elevation = 200\<rparr> ''constructor'')"
  by (simp add: getCropSuitability_inherited[OF constructor_inherited])

text \<open>
  Claim C10.  getCropSuitability reads only the fields temperature, rainfall, soilType
  and soilPH: two bundles that agree on these four give the same result for every crop
  identifier, whatever their waterLevel, moistureLevel and elevation.
\<close>

theorem getCropSuitability_reads_four_fields:
  assumes "temperature g = temperature g'" "rainfall g = rainfall g'"
    "soilType g = soilType g'" "soilPH g = soilPH g'"
  shows "getCropSuitability g cropType = getCropSuitability g' cropType"
  using assms
  by (simp add: getCropSuitability_def tempScore_def rainfallScore_def soilScore_def
      phScore_def split: property.splits)

theorem getCropSuitability_reads_four_fields_witness:
  "getCropSuitability
     \<lparr>soilType = Some sandy, waterLevel = 10, moistureLevel = 20, temperature = 31,
      rainfall = 450, soilPH = 5.1, elevation = 0\<rparr> ''Tomato Production''
   = getCropSuitability
     \<lparr>soilType = Some sandy, waterLevel = 100, moistureLevel = 90, temperature = 31,
      rainfall = 450, soilPH = 5.1, elevation = 2500\<rparr> ''Tomato Production''"
  using getCropSuitability_reads_four_fields
    [of "\<lparr>soilType = Some sandy, waterLevel = 10, moistureLevel = 20, temperature = 31,
           rainfall = 450, soilPH = 5.1, elevation = 0\<rparr>"
        "\<lparr>soilType = Some sandy, waterLevel = 100, moistureLevel = 90, temperature = 31,
           rainfall = 450, soilPH = 5.1, elevation = 2500\<rparr>" "''Tomato Production''"]
  by simp


section \<open>The random source decides the result of getGeographicData\<close>

text \<open>
  Two points far from the four mountain ranges and 30 degrees from a multiple of 60:
  the elevation is 200 plus jitter, and the coastal influence is zero.
\<close>

lemma elevation_at_0_30:
  "getElevationFromCoordinates 0 30 r
     = (max 0 (Math_round (200 + (r 0 - 0.5) * 400)), \<lambda>n. r (Suc n))"
  by (simp add: getElevationFromCoordinates_def mountainousRegions_def addRegion_def
      sqrt_less_10 Math_random_def Let_def)

lemma elevation_at_45_30:
  "getElevationFromCoordinates 45 30 r
     = (max 0 (Math_round (200 + (r 0 - 0.5) * 400)), \<lambda>n. r (Suc n))"
  by (simp add: getElevationFromCoordinates_def mountainousRegions_def addRegion_def
      sqrt_less_10 Math_random_def Let_def)

lemma coastal_at_30: "getCoastalInfluence lat 30 = 0"
  by (simp add: getCoastalInfluence_def js_rem_def Let_def)

lemmas run_simps = elevation_at_0_30 elevation_at_45_30 coastal_at_30 getClimateZone_def
  Math_random_def Math_round_def midpoint_draws_def array_get_def soilTypes_def
  Math_floor_def

text \<open>
  The draws in the order getGeographicData takes them: draw 0 is the elevation jitter,
  draw 1 the seasonal variation of the temperature, draw 2 the rainfall jitter, draw 3
  the moisture jitter, draw 4 the water level jitter, draw 5 the test for the soil type
  override; when the override is taken draw 6 picks the soil type and draw 7 is the pH
  jitter, otherwise draw 6 is the pH jitter.

  At (0, 30) with every draw at the midpoint: temperature 25, rainfall 2300, water level
  100, soil clay, pH 7.2.  Changing one draw alone changes the field that draw feeds.
\<close>

lemma temperature_midpoint: "temperature (fst (getGeographicData 0 30 midpoint_draws)) = 25"
  unfolding getGeographicData_def Let_def split_beta by (simp add: run_simps)

lemma temperature_draw_1:
  "temperature (fst (getGeographicData 0 30 (midpoint_draws(1 := 0)))) = 20"
  unfolding getGeographicData_def Let_def split_beta by (simp add: run_simps)

lemma rainfall_midpoint: "rainfall (fst (getGeographicData 0 30 midpoint_draws)) = 2300"
  unfolding getGeographicData_def Let_def split_beta by (simp add: run_simps)

lemma rainfall_draw_2:
  "rainfall (fst (getGeographicData 0 30 (midpoint_draws(2 := 0)))) = 2100"
  unfolding getGeographicData_def Let_def split_beta by (simp add: run_simps)

lemma moistureLevel_midpoint:
  "moistureLevel (fst (getGeographicData 45 30 midpoint_draws)) = 61"
  unfolding getGeographicData_def Let_def split_beta by (simp add: run_simps)

lemma moistureLevel_draw_3:
  "moistureLevel (fst (getGeographicData 45 30 (midpoint_draws(3 := 0)))) = 51"
  unfolding getGeographicData_def Let_def split_beta by (simp add: run_simps)

lemma waterLevel_midpoint: "waterLevel (fst (getGeographicData 0 30 midpoint_draws)) = 100"
  unfolding getGeographicData_def Let_def split_beta by (simp add: run_simps)

lemma waterLevel_draw_4:
  "waterLevel (fst (getGeographicData 0 30 (midpoint_draws(4 := 1 / 4)))) = 95"
  unfolding getGeographicData_def Let_def split_beta by (simp add: run_simps)

lemma soilType_midpoint: "soilType (fst (getGeographicData 0 30 midpoint_draws)) = Some clay"
  unfolding getGeographicData_def Let_def split_beta by (simp add: run_simps)

lemma soilType_draw_5:
  "soilType (fst (getGeographicData 0 30 (midpoint_draws(5 := 0)))) = Some loam"
  unfolding getGeographicData_def Let_def split_beta by (simp add: run_simps)

lemma soilType_draw_5_6:
  "soilType (fst (getGeographicData 0 30 ((midpoint_draws(5 := 0))(6 := 0)))) = Some clay"
  unfolding getGeographicData_def Let_def split_beta by (simp add: run_simps)

lemma soilPH_midpoint: "soilPH (fst (getGeographicData 0 30 midpoint_draws)) = 7.2"
  unfolding getGeographicData_def Let_def split_beta by (simp add: run_simps)

lemma soilPH_draw_6:
  "soilPH (fst (getGeographicData 0 30 (midpoint_draws(6 := 0)))) = 6.2"
  unfolding getGeographicData_def Let_def split_beta by (simp add: run_simps)

text \<open>
  Claim C6.  getGeographicData is not deterministic: there are coordinates and two random
  sources, both with draws in [0,1), for which two calls at the same coordinates return
  different records.  The result depends on the random source through each jitter term:
  there are coordinates and two such sources that differ in one draw only, the others
  being equal, such that the temperature differs (draw 1, seasonal variation), and
  likewise the rainfall (draw 2), the moisture level (draw 3), the water level (draw 4),
  the soil type (draw 5, the override test, and draw 6, the pick when the override is
  taken) and the pH (draw 6, the pH jitter when no override is taken).
\<close>

theorem getGeographicData_depends_on_draws:
  "(\<exists>lat lng r r'. unit_draws r \<and> unit_draws r'
      \<and> fst (getGeographicData lat lng r) \<noteq> fst (getGeographicData lat lng r'))
   \<and> (\<exists>lat lng r v. unit_draws r \<and> unit_draws (r(1 := v))
      \<and> temperature (fst (getGeographicData lat lng r))
          \<noteq> temperature (fst (getGeographicData lat lng (r(1 := v)))))
   \<and> (\<exists>lat lng r v. unit_draws r \<and> unit_draws (r(2 := v))
      \<and> rainfall (fst (getGeographicData lat lng r))
          \<noteq> rainfall (fst (getGeographicData lat lng (r(2 := v)))))
   \<and> (\<exists>lat lng r v. unit_draws r \<and> unit_draws (r(3 := v))
      \<and> moistureLevel (fst (getGeographicData lat lng r))
          \<noteq> moistureLevel (fst (getGeographicData lat lng (r(3 := v)))))
   \<and> (\<exists>lat lng r v. unit_draws r \<and> unit_draws (r(4 := v))
      \<and> waterLevel (fst (getGeographicData lat lng r))
          \<noteq> waterLevel (fst (getGeographicData lat lng (r(4 := v)))))
   \<and> (\<exists>lat lng r v. unit_draws r \<and> unit_draws (r(5 := v))
      \<and> soilType (fst (getGeographicData lat lng r))
          \<noteq> soilType (fst (getGeographicData lat lng (r(5 := v)))))
   \<and> (\<exists>lat lng r v. unit_draws r \<and> unit_draws (r(6 := v)) \<and> r 5 < 0.2
      \<and> soilType (fst (getGeographicData lat lng r))
          \<noteq> soilType (fst (getGeographicData lat lng (r(6 := v)))))
   \<and> (\<exists>lat lng r v. unit_draws r \<and> unit_draws (r(6 := v)) \<and> 0.2 \<le> r 5
      \<and> soilPH (fst (getGeographicData lat lng r))
          \<noteq> soilPH (fst (getGeographicData lat lng (r(6 := v)))))"
proof -
  note m = unit_draws_midpoint
  have u: "unit_draws (midpoint_draws(i := 0))" "unit_draws (midpoint_draws(i := 1 / 4))"
    "unit_draws ((midpoint_draws(5 := 0))(j := 0))" for i j
    by (simp_all add: unit_draws_upd m)
  have t: "temperature (fst (getGeographicData 0 30 midpoint_draws))
             \<noteq> temperature (fst (getGeographicData 0 30 (midpoint_draws(1 := 0))))"
    unfolding temperature_midpoint temperature_draw_1 by simp
  have rf: "rainfall (fst (getGeographicData 0 30 midpoint_draws))
             \<noteq> rainfall (fst (getGeographicData 0 30 (midpoint_draws(2 := 0))))"
    unfolding rainfall_midpoint rainfall_draw_2 by simp
  have mo: "moistureLevel (fst (getGeographicData 45 30 midpoint_draws))
             \<noteq> moistureLevel (fst (getGeographicData 45 30 (midpoint_draws(3 := 0))))"
    unfolding moistureLevel_midpoint moistureLevel_draw_3 by simp
  have w: "waterLevel (fst (getGeographicData 0 30 midpoint_draws))
             \<noteq> waterLevel (fst (getGeographicData 0 30 (midpoint_draws(4 := 1 / 4))))"
    unfolding waterLevel_midpoint waterLevel_draw_4 by simp
  have st: "soilType (fst (getGeographicData 0 30 midpoint_draws))
             \<noteq> soilType (fst (getGeographicData 0 30 (midpoint_draws(5 := 0))))"
    unfolding soilType_midpoint soilType_draw_5 by simp
  have pick: "soilType (fst (getGeographicData 0 30 (midpoint_draws(5 := 0))))
             \<noteq> soilType (fst (getGeographicData 0 30 ((midpoint_draws(5 := 0))(6 := 0))))"
    unfolding soilType_draw_5 soilType_draw_5_6 by simp
  have ph: "soilPH (fst (getGeographicData 0 30 midpoint_draws))
             \<noteq> soilPH (fst (getGeographicData 0 30 (midpoint_draws(6 := 0))))"
    unfolding soilPH_midpoint soilPH_draw_6 by simp
  have taken: "(midpoint_draws(5 := 0)) 5 < 0.2" by simp
  have not_taken: "0.2 \<le> midpoint_draws 5" by (simp add: midpoint_draws_def)
  from t have whole: "fst (getGeographicData 0 30 midpoint_draws)
             \<noteq> fst (getGeographicData 0 30 (midpoint_draws(1 := 0)))"
    by (rule contrapos_nn) simp
  have c0: "\<exists>lat lng r r'. unit_draws r \<and> unit_draws r'
      \<and> fst (getGeographicData lat lng r) \<noteq> fst (getGeographicData lat lng r')"
    using m u(1) whole by blast
  have c1: "\<exists>lat lng r v. unit_draws r \<and> unit_draws (r(1 := v))
      \<and> temperature (fst (getGeographicData lat lng r))
          \<noteq> temperature (fst (getGeographicData lat lng (r(1 := v))))"
    using m u(1) t by blast
  have c2: "\<exists>lat lng r v. unit_draws r \<and> unit_draws (r(2 := v))
      \<and> rainfall (fst (getGeographicData lat lng r))
          \<noteq> rainfall (fst (getGeographicData lat lng (r(2 := v))))"
    using m u(1) rf by blast
  have c3: "\<exists>lat lng r v. unit_draws r \<and> unit_draws (r(3 := v))
      \<and> moistureLevel (fst (getGeographicData lat lng r))
          \<noteq> moistureLevel (fst (getGeographicData lat lng (r(3 := v))))"
    using m u(1) mo by blast
  have c4: "\<exists>lat lng r v. unit_draws r \<and> unit_draws (r(4 := v))
      \<and> waterLevel (fst (getGeographicData lat lng r))
          \<noteq> waterLevel (fst (getGeographicData lat lng (r(4 := v))))"
    using m u(2) w by blast
  have c5: "\<exists>lat lng r v. unit_draws r \<and> unit_draws (r(5 := v))
      \<and> soilType (fst (getGeographicData lat lng r))
          \<noteq> soilType (fst (getGeographicData lat lng (r(5 := v))))"
    using m u(1) st by blast
  have c6: "\<exists>lat lng r v. unit_draws r \<and> unit_draws (r(6 := v)) \<and> r 5 < 0.2
      \<and> soilType (fst (getGeographicData lat lng r))
          \<noteq> soilType (fst (getGeographicData lat lng (r(6 := v))))"
    using u(1) u(3) taken pick by blast
  have c7: "\<exists>lat lng r v. unit_draws r \<and> unit_draws (r(6 := v)) \<and> 0.2 \<le> r 5
      \<and> soilPH (fst (getGeographicData lat lng r))
          \<noteq> soilPH (fst (getGeographicData lat lng (r(6 := v))))"
    using m u(1) not_taken ph by blast
  show ?thesis
    using c0 c1 c2 c3 c4 c5 c6 c7 by blast
qed

end
